theory Spec2Isabelle
  imports Complex_Main "HOL-Library.Multiset"
begin

section \<open>Numbers\<close>

text \<open>
  JavaScript numbers are modelled as mathematical reals: arithmetic is exact, and there
  is no NaN and no Infinity. A division whose JavaScript result would not be finite
  (a zero divisor) is the value \<open>None\<close>.
\<close>

type_synonym num = real

definition jsdiv :: "num \<Rightarrow> num \<Rightarrow> num option" where
  "jsdiv a b = (if b = 0 then None else Some (a / b))"

section \<open>The quadtree nodes the visitor sees (d3-quadtree)\<close>

text \<open>
  d3-quadtree hands two kinds of node to a visitor: a leaf \<open>{data, next}\<close>, whose
  \<open>next\<close> chains the data that share its coordinates, and an internal node, an
  array of four children of which any may be undefined. \<open>Leaf d ds\<close> is the leaf
  with datum \<open>d\<close> and chained data \<open>ds\<close>.
\<close>

datatype 'a node =
    Leaf 'a "'a list"
  | Internal "'a node option" "'a node option" "'a node option" "'a node option"

datatype error = NullItem

type_synonym 'a call = "num \<times> num \<times> 'a"

text \<open>
  \<open>quadtree.visit(callback)\<close> of d3-quadtree: pre-order; the callback gets the node and
  its bounds; when it returns true the children are skipped; the children are visited in
  the order 0, 1, 2, 3 with the quadrants of the parent's bounds split at the midpoint.
  The calls a callback makes on the renderer are collected in order; an exception raised
  in the callback ends the traversal.
\<close>

definition then_calls :: "error + 'c list \<Rightarrow> error + 'c list \<Rightarrow> error + 'c list" where
  "then_calls a b =
     (case a of Inl e \<Rightarrow> Inl e
      | Inr xs \<Rightarrow> (case b of Inl e \<Rightarrow> Inl e | Inr ys \<Rightarrow> Inr (xs @ ys)))"

fun visit :: "('a node \<Rightarrow> num \<Rightarrow> num \<Rightarrow> num \<Rightarrow> num \<Rightarrow> error + (bool \<times> 'c list))
    \<Rightarrow> 'a node \<Rightarrow> num \<Rightarrow> num \<Rightarrow> num \<Rightarrow> num \<Rightarrow> error + 'c list" where
  "visit callback (Leaf d ds) x0 y0 x1 y1 =
     (case callback (Leaf d ds) x0 y0 x1 y1 of
        Inl e \<Rightarrow> Inl e
      | Inr (stop, calls) \<Rightarrow> Inr calls)"
| "visit callback (Internal c0 c1 c2 c3) x0 y0 x1 y1 =
     (case callback (Internal c0 c1 c2 c3) x0 y0 x1 y1 of
        Inl e \<Rightarrow> Inl e
      | Inr (stop, calls) \<Rightarrow>
          if stop then Inr calls
          else
            (let xm = (x0 + x1) / 2; ym = (y0 + y1) / 2 in
             then_calls (Inr calls)
               (then_calls (case c0 of None \<Rightarrow> Inr [] | Some n \<Rightarrow> visit callback n x0 y0 xm ym)
               (then_calls (case c1 of None \<Rightarrow> Inr [] | Some n \<Rightarrow> visit callback n xm y0 x1 ym)
               (then_calls (case c2 of None \<Rightarrow> Inr [] | Some n \<Rightarrow> visit callback n x0 ym xm y1)
                           (case c3 of None \<Rightarrow> Inr [] | Some n \<Rightarrow> visit callback n xm ym x1 y1))))))"

section \<open>Helpers of the quadtree module\<close>

text \<open>
  Modelled from the spec: the module \<open>./quadtree\<close> (\<open>ABORT_TRAVERSAL\<close>,
  \<open>CONTINUE_TRAVERSAL\<close>, \<open>isLeafNode\<close>, \<open>forEachLeaf\<close>, \<open>getFirstLeaf\<close>,
  \<open>hasOverlap\<close>, \<open>ellipseTester\<close>, \<open>findByTester\<close>) is not among the sources.
  The visitor returns "abort" (skip the subtree) or "continue" (descend); d3 skips the
  children when the callback returns true.
\<close>

definition ABORT_TRAVERSAL :: bool where
  "ABORT_TRAVERSAL = True"

definition CONTINUE_TRAVERSAL :: bool where
  "CONTINUE_TRAVERSAL = False"

text \<open>
  Modelled from the spec: \<open>isLeafNode\<close> is missing; a leaf is a node without a
  \<open>length\<close>, the test \<open>!node.length\<close> of \<open>visitTree\<close> in index.ts.
\<close>

fun isLeafNode :: "'a node \<Rightarrow> bool" where
  "isLeafNode (Leaf d ds) = True"
| "isLeafNode (Internal c0 c1 c2 c3) = False"

text \<open>
  Modelled from the spec: \<open>forEachLeaf\<close> is missing; "render every chained item
  individually", the do-while loop over \<open>leaf.next\<close> of \<open>visitTree\<close> in index.ts.
  The result lists the callback's calls in order; the count the source returns is its
  length.
\<close>

fun forEachLeaf :: "'a node \<Rightarrow> ('a \<Rightarrow> 'c) \<Rightarrow> 'c list" where
  "forEachLeaf (Leaf d ds) callback = map callback (d # ds)"
| "forEachLeaf (Internal c0 c1 c2 c3) callback = []"

text \<open>
  Modelled from the spec: \<open>getFirstLeaf\<close> is missing; the representative of a subtree
  is the "first item encountered": the datum of the first leaf in visiting order. An
  internal node without any child has none (null).
\<close>

fun getFirstLeaf :: "'a node \<Rightarrow> 'a option" where
  "getFirstLeaf (Leaf d ds) = Some d"
| "getFirstLeaf (Internal c0 c1 c2 c3) =
     (case (case c0 of None \<Rightarrow> None | Some n \<Rightarrow> getFirstLeaf n) of
        Some d \<Rightarrow> Some d
      | None \<Rightarrow>
     (case (case c1 of None \<Rightarrow> None | Some n \<Rightarrow> getFirstLeaf n) of
        Some d \<Rightarrow> Some d
      | None \<Rightarrow>
     (case (case c2 of None \<Rightarrow> None | Some n \<Rightarrow> getFirstLeaf n) of
        Some d \<Rightarrow> Some d
      | None \<Rightarrow> (case c3 of None \<Rightarrow> None | Some n \<Rightarrow> getFirstLeaf n))))"

text \<open>
  \<open>isVisible\<close> of \<open>renderPoints\<close> in index.ts, with the visible window
  \<open>dbounds\<close> as its first four arguments.
\<close>

definition isVisible :: "num \<Rightarrow> num \<Rightarrow> num \<Rightarrow> num \<Rightarrow> num \<Rightarrow> num \<Rightarrow> num \<Rightarrow> num \<Rightarrow> bool" where
  "isVisible dx0 dy0 dx1 dy1 x0 y0 x1 y1 =
     (if x1 < dx0 \<or> y1 < dy0 \<or> x0 > dx1 \<or> y0 > dy1 then False else True)"

text \<open>
  Modelled from the spec: \<open>hasOverlap\<close> is missing; it returns the predicate that is
  false when the box "has no overlap with the visible window". It is taken to be the
  test \<open>isVisible\<close> of index.ts, curried on the window.
\<close>

definition hasOverlap :: "num \<Rightarrow> num \<Rightarrow> num \<Rightarrow> num \<Rightarrow> num \<Rightarrow> num \<Rightarrow> num \<Rightarrow> num \<Rightarrow> bool" where
  "hasOverlap ox0 oy0 ox1 oy1 = isVisible ox0 oy0 ox1 oy1"

section \<open>The render traversal (Scatterplot.ts)\<close>

text \<open>
  \<open>isNodeVisible\<close> of \<open>render\<close>: the window is
  \<open>hasOverlap(nx(0), ny(boundsHeight), nx(boundsWidth), ny(0))\<close> with
  \<open>nx = n2pX.invert\<close> and \<open>ny = n2pY.invert\<close>, the inverses of the live
  normalized-to-pixel scales.
\<close>

definition isNodeVisible :: "(num \<Rightarrow> num) \<Rightarrow> (num \<Rightarrow> num) \<Rightarrow> num \<Rightarrow> num
    \<Rightarrow> num \<Rightarrow> num \<Rightarrow> num \<Rightarrow> num \<Rightarrow> bool" where
  "isNodeVisible nx ny boundsWidth boundsHeight =
     hasOverlap (nx 0) (ny boundsHeight) (nx boundsWidth) (ny 0)"

text \<open>\<open>useAggregation\<close> of \<open>render\<close>, closed over the live scales \<open>n2pX\<close>, \<open>n2pY\<close>.\<close>

definition useAggregation :: "(num \<Rightarrow> num) \<Rightarrow> (num \<Rightarrow> num) \<Rightarrow> num \<Rightarrow> num \<Rightarrow> num \<Rightarrow> num \<Rightarrow> bool" where
  "useAggregation n2pX n2pY x0 y0 x1 y1 =
     (let px0 = n2pX x0; py0 = n2pY y0; px1 = n2pX x1; py1 = n2pY y1;
          minSize = max \<bar>px0 - px1\<bar> \<bar>py0 - py1\<bar>
      in minSize < 5)"

text \<open>
  \<open>visitTree\<close> of \<open>renderTree\<close>. The renderer's \<open>render(px, py, d)\<close> calls are
  the list returned with the traversal flag. The debug counters only feed the debug log
  and are left out. A null representative makes the accessor \<open>x(d)\<close> fail.
\<close>

definition visitTree :: "(num \<Rightarrow> num) \<Rightarrow> (num \<Rightarrow> num) \<Rightarrow> ('a \<Rightarrow> num) \<Rightarrow> ('a \<Rightarrow> num)
    \<Rightarrow> (num \<Rightarrow> num \<Rightarrow> num \<Rightarrow> num \<Rightarrow> bool) \<Rightarrow> (num \<Rightarrow> num \<Rightarrow> num \<Rightarrow> num \<Rightarrow> bool)
    \<Rightarrow> 'a node \<Rightarrow> num \<Rightarrow> num \<Rightarrow> num \<Rightarrow> num \<Rightarrow> error + (bool \<times> 'a call list)" where
  "visitTree xscale yscale x y nodeVisible aggregate node x0 y0 x1 y1 =
     (if \<not> nodeVisible x0 y0 x1 y1 then Inr (ABORT_TRAVERSAL, [])
      else if aggregate x0 y0 x1 y1 then
        (case getFirstLeaf node of
           None \<Rightarrow> Inl NullItem
         | Some d \<Rightarrow> Inr (ABORT_TRAVERSAL, [(xscale (x d), yscale (y d), d)]))
      else if isLeafNode node then
        Inr (CONTINUE_TRAVERSAL, forEachLeaf node (\<lambda>d. (xscale (x d), yscale (y d), d)))
      else Inr (CONTINUE_TRAVERSAL, []))"

text \<open>
  \<open>renderTree\<close>: \<open>tree.visit(visitTree)\<close> from the root (undefined for an empty
  tree) with the tree's extent.
\<close>

definition renderTree :: "'a node option \<Rightarrow> num \<Rightarrow> num \<Rightarrow> num \<Rightarrow> num
    \<Rightarrow> (num \<Rightarrow> num) \<Rightarrow> (num \<Rightarrow> num) \<Rightarrow> ('a \<Rightarrow> num) \<Rightarrow> ('a \<Rightarrow> num)
    \<Rightarrow> (num \<Rightarrow> num \<Rightarrow> num \<Rightarrow> num \<Rightarrow> bool) \<Rightarrow> (num \<Rightarrow> num \<Rightarrow> num \<Rightarrow> num \<Rightarrow> bool)
    \<Rightarrow> error + 'a call list" where
  "renderTree rootNode ex0 ey0 ex1 ey1 xscale yscale x y nodeVisible aggregate =
     (case rootNode of
        None \<Rightarrow> Inr []
      | Some n \<Rightarrow> visit (visitTree xscale yscale x y nodeVisible aggregate) n ex0 ey0 ex1 ey1)"

text \<open>
  The data of a subtree in visiting order, and d3's invariant that an internal node has
  at least one child.
\<close>

fun node_items :: "'a node \<Rightarrow> 'a list" where
  "node_items (Leaf d ds) = d # ds"
| "node_items (Internal c0 c1 c2 c3) =
     (case c0 of None \<Rightarrow> [] | Some n \<Rightarrow> node_items n) @
     (case c1 of None \<Rightarrow> [] | Some n \<Rightarrow> node_items n) @
     (case c2 of None \<Rightarrow> [] | Some n \<Rightarrow> node_items n) @
     (case c3 of None \<Rightarrow> [] | Some n \<Rightarrow> node_items n)"

fun wf_node :: "'a node \<Rightarrow> bool" where
  "wf_node (Leaf d ds) = True"
| "wf_node (Internal c0 c1 c2 c3) =
     ((c0 \<noteq> None \<or> c1 \<noteq> None \<or> c2 \<noteq> None \<or> c3 \<noteq> None) \<and>
      (case c0 of None \<Rightarrow> True | Some n \<Rightarrow> wf_node n) \<and>
      (case c1 of None \<Rightarrow> True | Some n \<Rightarrow> wf_node n) \<and>
      (case c2 of None \<Rightarrow> True | Some n \<Rightarrow> wf_node n) \<and>
      (case c3 of None \<Rightarrow> True | Some n \<Rightarrow> wf_node n))"

text \<open>The points of a box with corners \<open>(x0, y0)\<close> and \<open>(x1, y1)\<close>, borders included.\<close>

definition in_box :: "num \<Rightarrow> num \<Rightarrow> num \<Rightarrow> num \<Rightarrow> num \<Rightarrow> num \<Rightarrow> bool" where
  "in_box x0 y0 x1 y1 px py = (x0 \<le> px \<and> px \<le> x1 \<and> y0 \<le> py \<and> py \<le> y1)"

section \<open>The selection setter (index.ts)\<close>

text \<open>
  The selection index \<open>_selection\<close> is a d3 quadtree. The setter uses its constructor
  and its \<open>data()\<close>, \<open>size()\<close>, \<open>add\<close> and \<open>removeAll\<close>; the index is modelled by
  the list of the data it holds. \<open>add\<close> inserts one datum, \<open>removeAll\<close> removes one
  occurrence of each datum given (a datum the index does not hold is skipped).
\<close>

definition quadtree_add :: "'a list \<Rightarrow> 'a \<Rightarrow> 'a list" where
  "quadtree_add t d = t @ [d]"

definition quadtree_removeAll :: "'a list \<Rightarrow> 'a list \<Rightarrow> 'a list" where
  "quadtree_removeAll t ds = foldl (\<lambda>acc d. remove1 d acc) t ds"

text \<open>\<open>Array.prototype.indexOf\<close>: the first index of the value, or -1.\<close>

fun indexOf :: "'a list \<Rightarrow> 'a \<Rightarrow> int" where
  "indexOf [] v = -1"
| "indexOf (a # as) v =
     (if a = v then 0 else (let i = indexOf as v in if i < 0 then -1 else i + 1))"

text \<open>\<open>s.splice(i, 1)\<close> for an index \<open>i\<close> within the array.\<close>

definition splice1 :: "'a list \<Rightarrow> nat \<Rightarrow> 'a list" where
  "splice1 s i = take i s @ drop (Suc i) s"

text \<open>
  What one assignment to \<open>selection\<close> did: the index afterwards, the data passed to
  \<open>add\<close> in order, the data passed to \<open>removeAll\<close>, whether the index was replaced by a
  new empty quadtree, and whether \<open>render()\<close> was called.
\<close>

record 'a selection_result =
  sel_index :: "'a list"
  sel_adds :: "'a list"
  sel_removes :: "'a list"
  sel_rebuilt :: bool
  sel_rendered :: bool

text \<open>
  The \<open>selection.forEach\<close> loop of the setter: \<open>s\<close> is the copy of the old selection
  from which used items are spliced, \<open>t\<close> the index, \<open>adds\<close> the log of \<open>add\<close> calls.
\<close>

fun selection_forEach :: "'a list \<Rightarrow> 'a list \<Rightarrow> 'a list \<Rightarrow> bool \<Rightarrow> 'a list
    \<Rightarrow> 'a list \<times> 'a list \<times> bool \<times> 'a list" where
  "selection_forEach [] s t changed adds = (s, t, changed, adds)"
| "selection_forEach (s_new # rest) s t changed adds =
     (let i = indexOf s s_new in
      if i < 0 then selection_forEach rest s (quadtree_add t s_new) True (adds @ [s_new])
      else selection_forEach rest (splice1 s (nat i)) t changed adds)"

text \<open>\<open>set selection(selection)\<close> on a plot whose selection index holds \<open>t\<close>.\<close>

definition set_selection :: "'a list \<Rightarrow> 'a list \<Rightarrow> 'a selection_result" where
  "set_selection selection t =
     (if length selection = 0 then
        (if length t = 0 then
           \<lparr>sel_index = t, sel_adds = [], sel_removes = [], sel_rebuilt = False,
            sel_rendered = False\<rparr>
         else
           \<lparr>sel_index = [], sel_adds = [], sel_removes = [], sel_rebuilt = True,
            sel_rendered = True\<rparr>)
      else
        (case selection_forEach selection t t False [] of
           (s, t', changed, adds) \<Rightarrow>
             (let changed' = (changed \<or> length s > 0) in
              \<lparr>sel_index = quadtree_removeAll t' s, sel_adds = adds, sel_removes = s,
               sel_rebuilt = False, sel_rendered = changed'\<rparr>)))"

section \<open>Scales (d3-scale) and the zoom transform (d3-zoom)\<close>

text \<open>
  An \<open>IScale\<close> has a domain, a range, the mapping itself, \<open>invert\<close> and \<open>copy()\<close>.
  Its state is the domain and the range; its shape (linear, log, pow) is the pair of
  mappings \<open>forward\<close> and \<open>backward\<close>, which map a value forth and a position back for
  a given domain and range. \<open>copy()\<close> is the value itself, \<open>range(r)\<close> and \<open>domain(d)\<close>
  are field updates.
\<close>

record scale =
  sdomain :: "num \<times> num"
  srange :: "num \<times> num"
  forward :: "num \<times> num \<Rightarrow> num \<times> num \<Rightarrow> num \<Rightarrow> num"
  backward :: "num \<times> num \<Rightarrow> num \<times> num \<Rightarrow> num \<Rightarrow> num"

definition scale_apply :: "scale \<Rightarrow> num \<Rightarrow> num" where
  "scale_apply s v = forward s (sdomain s) (srange s) v"

definition scale_invert :: "scale \<Rightarrow> num \<Rightarrow> num" where
  "scale_invert s p = backward s (sdomain s) (srange s) p"

text \<open>
  \<open>scaleLinear()\<close> of d3-scale for a domain and a range of two numbers, not clamped:
  the value is normalised over the domain and interpolated over the range (a domain of
  width zero normalises to 0, as d3-scale 1.x does).
\<close>

definition normalize :: "num \<Rightarrow> num \<Rightarrow> num \<Rightarrow> num" where
  "normalize a b v = (if b - a = 0 then 0 else (v - a) / (b - a))"

definition interpolateNumber :: "num \<Rightarrow> num \<Rightarrow> num \<Rightarrow> num" where
  "interpolateNumber a b t = a * (1 - t) + b * t"

definition bimap :: "num \<times> num \<Rightarrow> num \<times> num \<Rightarrow> num \<Rightarrow> num" where
  "bimap d r v =
     (case d of (d0, d1) \<Rightarrow> case r of (r0, r1) \<Rightarrow>
        if d1 < d0 then interpolateNumber r1 r0 (normalize d1 d0 v)
        else interpolateNumber r0 r1 (normalize d0 d1 v))"

definition scaleLinear :: scale where
  "scaleLinear = \<lparr>sdomain = (0, 1), srange = (0, 1), forward = bimap,
                   backward = (\<lambda>d r. bimap r d)\<rparr>"

text \<open>
  A zoom transform \<open>{k, x, y}\<close> of d3-zoom with \<open>invertX\<close>, \<open>invertY\<close>, \<open>rescaleX\<close>
  and \<open>rescaleY\<close>: the rescaled scale is a copy whose domain is the range mapped back
  through the transform and the scale. The scale factor \<open>k\<close> is not zero (d3-zoom keeps
  it within the scale extent).
\<close>

record transform =
  tk :: num
  tx :: num
  ty :: num

definition zoomIdentity :: transform where
  "zoomIdentity = \<lparr>tk = 1, tx = 0, ty = 0\<rparr>"

definition invertX :: "transform \<Rightarrow> num \<Rightarrow> num" where
  "invertX t v = (v - tx t) / tk t"

definition invertY :: "transform \<Rightarrow> num \<Rightarrow> num" where
  "invertY t v = (v - ty t) / tk t"

definition rescaleX :: "transform \<Rightarrow> scale \<Rightarrow> scale" where
  "rescaleX t s =
     s\<lparr>sdomain := (scale_invert s (invertX t (fst (srange s))),
                   scale_invert s (invertX t (snd (srange s))))\<rparr>"

definition rescaleY :: "transform \<Rightarrow> scale \<Rightarrow> scale" where
  "rescaleY t s =
     s\<lparr>sdomain := (scale_invert s (invertY t (fst (srange s))),
                   scale_invert s (invertY t (snd (srange s))))\<rparr>"

section \<open>The state of a scatterplot\<close>

text \<open>
  A d3 quadtree as the plot holds it: the data it was built from and its coordinate
  functions \<open>x()\<close> and \<open>y()\<close>; each datum \<open>d\<close> is stored at \<open>(qx d, qy d)\<close>.
\<close>

record 'a quadtree =
  qdata :: "'a list"
  qx :: "'a \<Rightarrow> num"
  qy :: "'a \<Rightarrow> num"

definition quadtree :: "'a list \<Rightarrow> ('a \<Rightarrow> num) \<Rightarrow> ('a \<Rightarrow> num) \<Rightarrow> 'a quadtree" where
  "quadtree ds x y = \<lparr>qdata = ds, qx = x, qy = y\<rparr>"

text \<open>
  Modelled from the spec: the enums \<open>ERenderReason\<close> and \<open>EScaleAxes\<close> of
  \<open>./AScatterplot\<close> are missing; these are the members the sources name (the render
  reasons of the switch of \<open>render\<close>, its commented cases included, and the zoom-axis
  masks x, y and xy). \<open>reason_name\<close> is \<open>ERenderReason[reason]\<close>.
\<close>

datatype ERenderReason =
    DIRTY
  | SELECTION_CHANGED
  | PERFORM_TRANSLATE
  | AFTER_TRANSLATE
  | PERFORM_SCALE
  | AFTER_SCALE
  | PERFORM_SCALE_AND_TRANSLATE
  | AFTER_SCALE_AND_TRANSLATE

fun reason_name :: "ERenderReason \<Rightarrow> string" where
  "reason_name DIRTY = ''DIRTY''"
| "reason_name SELECTION_CHANGED = ''SELECTION_CHANGED''"
| "reason_name PERFORM_TRANSLATE = ''PERFORM_TRANSLATE''"
| "reason_name AFTER_TRANSLATE = ''AFTER_TRANSLATE''"
| "reason_name PERFORM_SCALE = ''PERFORM_SCALE''"
| "reason_name AFTER_SCALE = ''AFTER_SCALE''"
| "reason_name PERFORM_SCALE_AND_TRANSLATE = ''PERFORM_SCALE_AND_TRANSLATE''"
| "reason_name AFTER_SCALE_AND_TRANSLATE = ''AFTER_SCALE_AND_TRANSLATE''"

datatype EScaleAxes = EScaleAxes_x | EScaleAxes_y | EScaleAxes_xy

text \<open>\<open>ERenderMode\<close> of the symbol module.\<close>

datatype ERenderMode = NORMAL | SELECTED | HOVER

text \<open>The transform delta \<open>{x, y, kx, ky}\<close> of a render, and the default of \<open>render\<close>.\<close>

record delta =
  delta_x :: num
  delta_y :: num
  delta_kx :: num
  delta_ky :: num

definition default_delta :: delta where
  "default_delta = \<lparr>delta_x = 0, delta_y = 0, delta_kx = 1, delta_ky = 1\<rparr>"

record margins =
  m_left :: num
  m_top :: num
  m_right :: num
  m_bottom :: num

text \<open>The two canvas elements, \<open>parent.children[0]\<close> and \<open>parent.children[1]\<close>.\<close>

datatype canvas = Canvas0 | Canvas1

datatype tree_id = PrimaryTree | SecondaryTree | SelectionTree

datatype scale_id = XScale | YScale | Y2Scale | N2PX | N2PY | N2PY2

text \<open>
  What a render does to the outside, in order: the event it emits, the scale ranges it
  sets, the timers it clears and arms, and the operations on the canvases. \<open>RenderTree c t m\<close>
  is one \<open>renderTree\<close> traversal of the index \<open>t\<close>, drawn on canvas \<open>c\<close> with a renderer of
  mode \<open>m\<close>; \<open>DrawImage src dst x y sw sh dw dh\<close> is \<open>translate(x, y)\<close> and the copy of
  the visible area of \<open>src\<close>, of size \<open>sw\<close> by \<open>sh\<close>, onto \<open>dst\<close> at size \<open>dw\<close> by \<open>dh\<close>.
\<close>

datatype effect =
    Emit string delta
  | SetRange scale_id "num \<times> num"
  | ClearTimeout int
  | SetTimeout int ERenderReason nat
  | ClearRect canvas
  | RenderTree canvas tree_id ERenderMode
  | Extras canvas
  | LassoRender canvas
  | DrawImage canvas canvas num num num num num num
  | SwapLayers
  | RenderAxes

text \<open>
  The fields of the plot the modelled methods read or write. The canvas buffer size
  (\<open>width\<close>, \<open>height\<close>) and its client size are those of the canvas the resize check
  looks at. \<open>selectAble\<close> and \<open>extras\<close> are the results of \<open>isSelectAble()\<close> and
  \<open>hasExtras()\<close>; \<open>dualAxis\<close> tells the dual-axis plot from the single-axis one. Pending
  timeouts are the list \<open>timers\<close> of handle and render reason (every timeout of the plot
  calls \<open>render\<close> with a reason); \<open>setTimeout\<close> returns a new positive handle.
\<close>

record 'a plot =
  width :: int
  height :: int
  clientWidth :: int
  clientHeight :: int
  canvasDataLayer :: canvas
  canvasSelectionLayer :: canvas
  margin :: margins
  zoom_scale :: EScaleAxes
  zoom_delay :: nat
  clickRadius :: num
  aspectRatio :: num
  selectAble :: bool
  extras :: bool
  dualAxis :: bool
  props_x :: "'a \<Rightarrow> num"
  props_y :: "'a \<Rightarrow> num"
  props_xscale :: scale
  props_yscale :: scale
  props_y2scale :: scale
  normalized2pixel_x :: scale
  normalized2pixel_y :: scale
  normalized2pixel_y2 :: scale
  currentTransform :: transform
  tree :: "'a quadtree"
  selectionTree :: "'a quadtree"
  zoomHandle :: int
  timers :: "(int \<times> ERenderReason) list"
  lastHandle :: nat

section \<open>The resize check (index.ts) and \<open>render\<close> (Scatterplot.ts)\<close>

text \<open>
  \<open>checkResize\<close> of index.ts: when the drawing buffer and the client size differ, the
  buffer takes the client size and the result is true.
\<close>

definition checkResize :: "'a plot \<Rightarrow> bool \<times> 'a plot" where
  "checkResize s =
     (if width s \<noteq> clientWidth s \<or> height s \<noteq> clientHeight s then
        (True, s\<lparr>width := clientWidth s, height := clientHeight s\<rparr>)
      else (False, s))"

text \<open>
  A method of the plot returns the effects it had and the plot afterwards; \<open>steps\<close> runs
  methods one after the other.
\<close>

type_synonym 'a action = "'a plot \<Rightarrow> effect list \<times> 'a plot"

definition andThen :: "'a action \<Rightarrow> 'a action \<Rightarrow> 'a action" where
  "andThen f g s = (case f s of (e1, s1) \<Rightarrow> case g s1 of (e2, s2) \<Rightarrow> (e1 @ e2, s2))"

fun steps :: "'a action list \<Rightarrow> 'a action" where
  "steps [] s = ([], s)"
| "steps (f # fs) s = andThen f (steps fs) s"

definition skip :: "'a action" where
  "skip s = ([], s)"

text \<open>\<open>boundsWidth\<close> and \<open>boundsHeight\<close> of \<open>render\<close>.\<close>

definition bounds_width :: "'a plot \<Rightarrow> num" where
  "bounds_width s = (real_of_int (clientWidth s) - m_right (margin s)) - m_left (margin s)"

definition bounds_height :: "'a plot \<Rightarrow> num" where
  "bounds_height s = (real_of_int (clientHeight s) - m_bottom (margin s)) - m_top (margin s)"

text \<open>\<open>this.emit(EVENT_RENDER, ERenderReason[reason], transformDelta)\<close>.\<close>

definition emit_render :: "ERenderReason \<Rightarrow> delta \<Rightarrow> 'a action" where
  "emit_render reason transformDelta s = ([Emit (reason_name reason) transformDelta], s)"

text \<open>
  The body of \<open>if (reason === ERenderReason.DIRTY)\<close>: the pixel ranges of the domain
  scales and of the normalized-to-pixel scales (with the \<open>y2\<close> scales in the dual-axis
  plot).
\<close>

definition setRanges :: "'a action" where
  "setRanges s =
     (let xr = (0, bounds_width s); yr = (bounds_height s, 0) in
      if dualAxis s then
        ([SetRange XScale xr, SetRange YScale yr, SetRange Y2Scale yr,
          SetRange N2PX xr, SetRange N2PY yr, SetRange N2PY2 yr],
         s\<lparr>props_xscale := (props_xscale s)\<lparr>srange := xr\<rparr>,
           props_yscale := (props_yscale s)\<lparr>srange := yr\<rparr>,
           props_y2scale := (props_y2scale s)\<lparr>srange := yr\<rparr>,
           normalized2pixel_x := (normalized2pixel_x s)\<lparr>srange := xr\<rparr>,
           normalized2pixel_y := (normalized2pixel_y s)\<lparr>srange := yr\<rparr>,
           normalized2pixel_y2 := (normalized2pixel_y2 s)\<lparr>srange := yr\<rparr>\<rparr>)
      else
        ([SetRange XScale xr, SetRange YScale yr, SetRange N2PX xr, SetRange N2PY yr],
         s\<lparr>props_xscale := (props_xscale s)\<lparr>srange := xr\<rparr>,
           props_yscale := (props_yscale s)\<lparr>srange := yr\<rparr>,
           normalized2pixel_x := (normalized2pixel_x s)\<lparr>srange := xr\<rparr>,
           normalized2pixel_y := (normalized2pixel_y s)\<lparr>srange := yr\<rparr>\<rparr>))"

text \<open>
  \<open>renderCtx(isSelection, isSecondary)\<close>: the layer is cleared (not for the secondary
  pass), the index is traversed by \<open>renderTree\<close>, and the extras are drawn on the
  selection layer.
\<close>

definition renderCtx :: "bool \<Rightarrow> bool \<Rightarrow> 'a action" where
  "renderCtx isSelection isSecondary s =
     (let c = (if isSelection then canvasSelectionLayer s else canvasDataLayer s);
          t = (if isSelection then SelectionTree
               else if isSecondary then SecondaryTree else PrimaryTree);
          m = (if isSecondary then NORMAL else if isSelection then SELECTED else NORMAL)
      in ((if \<not> isSecondary then [ClearRect c] else []) @ [RenderTree c t m] @
          (if isSelection \<and> extras s then [Extras c] else []), s))"

definition renderData :: "'a action" where
  "renderData = renderCtx False False"

text \<open>\<open>renderSecondaryData\<close> exists in the dual-axis plot only.\<close>

definition renderSecondaryData :: "'a action" where
  "renderSecondaryData s = (if dualAxis s then renderCtx False True s else ([], s))"

definition renderSelection :: "'a action" where
  "renderSelection s =
     (if \<not> selectAble s \<and> \<not> extras s then ([], s)
      else andThen (renderCtx True False) (\<lambda>s'. ([LassoRender (canvasSelectionLayer s')], s')) s)"

text \<open>
  \<open>transformData\<close>: the data layer is copied onto the cleared selection layer,
  translated and scaled, and the two layers swap their roles.
\<close>

definition transformData :: "num \<Rightarrow> num \<Rightarrow> num \<Rightarrow> num \<Rightarrow> 'a action" where
  "transformData x y kx ky s =
     ([ClearRect (canvasSelectionLayer s),
       DrawImage (canvasDataLayer s) (canvasSelectionLayer s) x y
         (bounds_width s) (bounds_height s) (bounds_width s * kx) (bounds_height s * ky),
       SwapLayers],
      s\<lparr>canvasDataLayer := canvasSelectionLayer s, canvasSelectionLayer := canvasDataLayer s\<rparr>)"

definition renderAxes :: "'a action" where
  "renderAxes s = ([RenderAxes], s)"

text \<open>\<open>clearAutoZoomRedraw\<close>; \<open>clearTimeout\<close> drops the pending timeout of that handle.\<close>

definition clearAutoZoomRedraw :: "'a action" where
  "clearAutoZoomRedraw s =
     (if zoomHandle s \<ge> 0 then
        ([ClearTimeout (zoomHandle s)],
         s\<lparr>timers := filter (\<lambda>(h, r). h \<noteq> zoomHandle s) (timers s), zoomHandle := -1\<rparr>)
      else ([], s))"

text \<open>
  \<open>this.zoomHandle = setTimeout(this.render.bind(this, AFTER_TRANSLATE), zoom.delay)\<close>.
\<close>

definition setAutoZoomRedraw :: "'a action" where
  "setAutoZoomRedraw s =
     (let h = int (Suc (lastHandle s)) in
      ([SetTimeout h AFTER_TRANSLATE (zoom_delay s)],
       s\<lparr>timers := timers s @ [(h, AFTER_TRANSLATE)], lastHandle := Suc (lastHandle s),
         zoomHandle := h\<rparr>))"

text \<open>The switch of \<open>render\<close>.\<close>

fun render_switch :: "ERenderReason \<Rightarrow> delta \<Rightarrow> 'a action" where
  "render_switch PERFORM_TRANSLATE transformDelta =
     steps [clearAutoZoomRedraw,
            transformData (delta_x transformDelta) (delta_y transformDelta)
              (delta_kx transformDelta) (delta_ky transformDelta),
            renderSelection, renderAxes, setAutoZoomRedraw]"
| "render_switch SELECTION_CHANGED transformDelta = renderSelection"
| "render_switch AFTER_TRANSLATE transformDelta =
     steps [clearAutoZoomRedraw, renderData, renderSecondaryData]"
| "render_switch AFTER_SCALE_AND_TRANSLATE transformDelta = skip"
| "render_switch AFTER_SCALE transformDelta = skip"
| "render_switch reason transformDelta =
     steps [clearAutoZoomRedraw, renderData, renderSecondaryData, renderAxes, renderSelection]"

text \<open>\<open>render\<close> after the resize check.\<close>

definition render_body :: "ERenderReason \<Rightarrow> delta \<Rightarrow> 'a action" where
  "render_body reason transformDelta =
     steps [emit_render reason transformDelta,
            (if reason = DIRTY then setRanges else skip),
            render_switch reason transformDelta]"

text \<open>
  \<open>render(reason, transformDelta)\<close>: when \<open>checkResize()\<close> is true it returns
  \<open>this.resized()\<close>, which is \<open>this.render(ERenderReason.DIRTY)\<close>.
\<close>

function render :: "ERenderReason \<Rightarrow> delta \<Rightarrow> 'a action" where
  "render reason transformDelta s =
     (if fst (checkResize s) then render DIRTY default_delta (snd (checkResize s))
      else render_body reason transformDelta (snd (checkResize s)))"
  by pat_completeness auto
termination
  by (relation "measure (\<lambda>(reason, transformDelta, s).
        if width s \<noteq> clientWidth s \<or> height s \<noteq> clientHeight s then 1 else 0)")
     (auto simp: checkResize_def split: if_splits)

declare render.simps [simp del]

text \<open>
  A pending timeout fires: it leaves the pending list and its callback,
  \<open>render(reason)\<close>, runs. A handle with no pending timeout fires nothing.
\<close>

definition fire :: "int \<Rightarrow> 'a action" where
  "fire h s =
     (case map_of (timers s) h of
        None \<Rightarrow> ([], s)
      | Some reason \<Rightarrow>
          render reason default_delta (s\<lparr>timers := filter (\<lambda>(h', r). h' \<noteq> h) (timers s)\<rparr>))"

section \<open>Building the index (Scatterplot.ts)\<close>

definition DEFAULT_NORMALIZED_RANGE :: "num \<times> num" where
  "DEFAULT_NORMALIZED_RANGE = (0, 100)"

text \<open>
  \<open>setDataImpl\<close>: the quadtree of the data at the coordinates given by copies of the
  domain scales whose ranges are the domains of the normalized-to-pixel scales.
\<close>

definition setDataImpl :: "'a list \<Rightarrow> 'a plot \<Rightarrow> 'a plot" where
  "setDataImpl ds s =
     (let domain2normalizedX = (props_xscale s)\<lparr>srange := sdomain (normalized2pixel_x s)\<rparr>;
          domain2normalizedY = (props_yscale s)\<lparr>srange := sdomain (normalized2pixel_y s)\<rparr>
      in s\<lparr>tree := quadtree ds (\<lambda>d. scale_apply domain2normalizedX (props_x s d))
                               (\<lambda>d. scale_apply domain2normalizedY (props_y s d))\<rparr>)"

text \<open>
  The constructor, from the plot with its merged options \<open>s\<close>: the domains of the
  normalized-to-pixel scales, the index, the empty selection index. (Option merging,
  \<open>fixScale\<close> and the DOM are outside the model.)
\<close>

definition constructor :: "'a list \<Rightarrow> 'a plot \<Rightarrow> 'a plot" where
  "constructor ds s =
     (let s1 = s\<lparr>normalized2pixel_x := (normalized2pixel_x s)
                    \<lparr>sdomain := (fst DEFAULT_NORMALIZED_RANGE * aspectRatio s,
                                 snd DEFAULT_NORMALIZED_RANGE * aspectRatio s)\<rparr>\<rparr>;
          s2 = s1\<lparr>normalized2pixel_y := (normalized2pixel_y s1)
                    \<lparr>sdomain := DEFAULT_NORMALIZED_RANGE\<rparr>\<rparr>;
          s3 = setDataImpl ds s2
      in s3\<lparr>selectionTree := quadtree [] (qx (tree s3)) (qy (tree s3))\<rparr>)"

text \<open>
  \<open>set data(data)\<close>: \<open>set_data_assign\<close> is its first two statements, the third is the
  DIRTY render.
\<close>

definition set_data_assign :: "'a list \<Rightarrow> 'a plot \<Rightarrow> 'a plot" where
  "set_data_assign ds s =
     (let s1 = setDataImpl ds s
      in s1\<lparr>selectionTree := quadtree [] (qx (tree s1)) (qy (tree s1))\<rparr>)"

definition set_data :: "'a list \<Rightarrow> 'a action" where
  "set_data ds s = render DIRTY default_delta (set_data_assign ds s)"

text \<open>
  Predicates on effects, and a concrete plot: canvas of 100 by 100 pixels with a buffer
  of the same size, no margins, the default options of the source (click radius 10,
  zoom on both axes with a delay of 300 ms, aspect ratio 1), linear scales with the
  domain [0, 100], the identity transform, points as pairs of coordinates.
\<close>

fun is_emit :: "effect \<Rightarrow> bool" where
  "is_emit (Emit n d) = True"
| "is_emit e = False"


definition no_margins :: margins where
  "no_margins = \<lparr>m_left = 0, m_top = 0, m_right = 0, m_bottom = 0\<rparr>"

definition plot0 :: "(num \<times> num) plot" where
  "plot0 =
     \<lparr>width = 100, height = 100, clientWidth = 100, clientHeight = 100,
      canvasDataLayer = Canvas0, canvasSelectionLayer = Canvas1,
      margin = no_margins, zoom_scale = EScaleAxes_xy, zoom_delay = 300,
      clickRadius = 10, aspectRatio = 1, selectAble = True, extras = False,
      dualAxis = False, props_x = fst, props_y = snd,
      props_xscale = scaleLinear\<lparr>sdomain := (0, 100)\<rparr>,
      props_yscale = scaleLinear\<lparr>sdomain := (0, 100)\<rparr>,
      props_y2scale = scaleLinear\<lparr>sdomain := (0, 1000)\<rparr>,
      normalized2pixel_x = scaleLinear, normalized2pixel_y = scaleLinear,
      normalized2pixel_y2 = scaleLinear,
      currentTransform = zoomIdentity,
      tree = quadtree [] fst snd, selectionTree = quadtree [] fst snd,
      zoomHandle = -1, timers = [], lastHandle = 0\<rparr>"

text \<open>
  The plot's bookkeeping of its settle timer: every pending timeout is the one
  \<open>zoomHandle\<close> names, and handles are not negative.
\<close>

definition timers_ok :: "'a plot \<Rightarrow> bool" where
  "timers_ok s = list_all (\<lambda>(h, r). h = zoomHandle s \<and> 0 \<le> h) (timers s)"

section \<open>Click hit-testing (the dual-axis scatterplot)\<close>

text \<open>
  Modelled from the spec: \<open>rescale\<close> of \<open>./AScatterplot\<close> is missing; it composes a
  scale with the current zoom transform on the axes the zoom-axis mask selects and is
  the identity on the others. It is called for the axes x and y only.
\<close>

definition rescale :: "EScaleAxes \<Rightarrow> 'a plot \<Rightarrow> scale \<Rightarrow> scale" where
  "rescale axis s sc =
     (case axis of
        EScaleAxes_x \<Rightarrow>
          if zoom_scale s = EScaleAxes_x \<or> zoom_scale s = EScaleAxes_xy
          then rescaleX (currentTransform s) sc else sc
      | EScaleAxes_y \<Rightarrow>
          if zoom_scale s = EScaleAxes_y \<or> zoom_scale s = EScaleAxes_xy
          then rescaleY (currentTransform s) sc else sc
      | EScaleAxes_xy \<Rightarrow> sc)"

definition transformedNormalized2PixelScales :: "'a plot \<Rightarrow> scale \<times> scale" where
  "transformedNormalized2PixelScales s =
     (rescale EScaleAxes_x s (normalized2pixel_x s), rescale EScaleAxes_y s (normalized2pixel_y s))"

text \<open>The local function \<open>range\<close> of \<open>getMouseNormalizedPos\<close>.\<close>

definition range_size :: "num \<times> num \<Rightarrow> num" where
  "range_size r = \<bar>snd r - fst r\<bar>"

text \<open>
  \<open>computeClickRadius\<close>: the click radius in normalized units on each axis; \<open>None\<close>
  when a view size is zero and the quotient is not finite.
\<close>

definition computeClickRadius :: "'a plot \<Rightarrow> (num \<times> num) option" where
  "computeClickRadius s =
     (let view = clickRadius s;
          t = currentTransform s;
          sc = zoom_scale s;
          kX = (if sc = EScaleAxes_x \<or> sc = EScaleAxes_xy then tk t else 1);
          kY = (if sc = EScaleAxes_y \<or> sc = EScaleAxes_xy then tk t else 1);
          viewSizeX = kX * range_size (srange (normalized2pixel_x s));
          viewSizeY = kY * range_size (srange (normalized2pixel_y s));
          normalizedRangeX = range_size (sdomain (normalized2pixel_x s));
          normalizedRangeY = range_size (sdomain (normalized2pixel_y s))
      in case jsdiv view viewSizeX of
           None \<Rightarrow> None
         | Some qX \<Rightarrow>
             (case jsdiv view viewSizeY of
                None \<Rightarrow> None
              | Some qY \<Rightarrow> Some (qX * normalizedRangeX, qY * normalizedRangeY)))"

record mouse_pos =
  mouse_x :: num
  mouse_y :: num
  clickRadiusX :: num
  clickRadiusY :: num

text \<open>
  \<open>getMouseNormalizedPos(canvasPixelPos)\<close>; the position is that of the mouse on the
  canvas, in pixels, without the margins.
\<close>

definition getMouseNormalizedPos :: "num \<times> num \<Rightarrow> 'a plot \<Rightarrow> mouse_pos option" where
  "getMouseNormalizedPos canvasPixelPos s =
     (case transformedNormalized2PixelScales s of (n2pX, n2pY) \<Rightarrow>
        (case computeClickRadius s of
           None \<Rightarrow> None
         | Some (rX, rY) \<Rightarrow>
             Some \<lparr>mouse_x = scale_invert n2pX (fst canvasPixelPos),
                   mouse_y = scale_invert n2pY (snd canvasPixelPos),
                   clickRadiusX = rX, clickRadiusY = rY\<rparr>))"

text \<open>
  Modelled from the spec: \<open>ellipseTester\<close> and \<open>findByTester\<close> of \<open>./quadtree\<close> are
  missing; the tester is the ellipse around the normalized point with the two radii
  (empty when a radius is zero), and \<open>findByTester\<close> collects the data of the index
  whose stored coordinates pass the test.
\<close>

definition ellipseTester :: "num \<Rightarrow> num \<Rightarrow> num \<Rightarrow> num \<Rightarrow> num \<Rightarrow> num \<Rightarrow> bool" where
  "ellipseTester cx cy radiusX radiusY px py =
     (radiusX \<noteq> 0 \<and> radiusY \<noteq> 0 \<and>
      ((px - cx) / radiusX)\<^sup>2 + ((py - cy) / radiusY)\<^sup>2 \<le> 1)"

definition findByTester :: "'a quadtree \<Rightarrow> (num \<Rightarrow> num \<Rightarrow> bool) \<Rightarrow> 'a list" where
  "findByTester t tester = filter (\<lambda>d. tester (qx t d) (qy t d)) (qdata t)"

text \<open>
  Modelled from the spec: the selection setter and \<open>selectWithTester\<close> of
  \<open>./AScatterplot\<close> are missing; the matches replace the selection, through the diffing
  setter (that of index.ts), and a changed selection is rendered with the reason
  SELECTION_CHANGED.
\<close>

definition assign_selection :: "'a list \<Rightarrow> 'a action" where
  "assign_selection selection s =
     (let r = set_selection selection (qdata (selectionTree s));
          s' = s\<lparr>selectionTree := (selectionTree s)\<lparr>qdata := sel_index r\<rparr>\<rparr>
      in if sel_rendered r then render SELECTION_CHANGED default_delta s' else ([], s'))"

definition selectWithTester :: "(num \<Rightarrow> num \<Rightarrow> bool) \<Rightarrow> 'a action" where
  "selectWithTester tester s = assign_selection (findByTester (tree s) tester) s"

text \<open>
  \<open>onClick(event)\<close> for a click with the given button at the given canvas position;
  \<open>None\<close> when the click radius is not finite.
\<close>

definition onClick :: "nat \<Rightarrow> num \<times> num \<Rightarrow> 'a plot \<Rightarrow> (effect list \<times> 'a plot) option" where
  "onClick button canvasPixelPos s =
     (if button > 0 then Some (assign_selection [] s)
      else
        (case getMouseNormalizedPos canvasPixelPos s of
           None \<Rightarrow> None
         | Some m \<Rightarrow>
             Some (selectWithTester
                     (ellipseTester (mouse_x m) (mouse_y m) (clickRadiusX m) (clickRadiusY m)) s)))"

text \<open>
  The click scenario: the plot of the points (10, 10) and (90, 90), constructed from
  the concrete plot (domain [0, 100] on both axes, canvas of 100 by 100 pixels, no
  margins, click radius 10) and rendered once.
\<close>

definition click_plot :: "(num \<times> num) plot" where
  "click_plot = snd (render DIRTY default_delta (constructor [(10, 10), (90, 90)] plot0))"

lemma getFirstLeaf_hd:
  "wf_node n \<Longrightarrow> node_items n \<noteq> [] \<and> getFirstLeaf n = Some (hd (node_items n))"
proof (induction n)
  case (Leaf d ds)
  show ?case by simp
next
  case (Internal c0 c1 c2 c3)
  then show ?case
    by (cases c0; cases c1; cases c2; cases c3) (auto simp: hd_append)
qed


lemma visit_abort:
  "callback n x0 y0 x1 y1 = Inr (True, calls) \<Longrightarrow> visit callback n x0 y0 x1 y1 = Inr calls"
  by (cases n) simp_all

section \<open>C1: level-of-detail aggregation\<close>

text \<open>
  C1. A visited node that passes the visibility test and whose bounds, mapped to pixels
  by the live scales, span less than 5 pixels on the longer side yields exactly one
  \<open>renderer.render\<close> call for its whole subtree, for the first item of the subtree in
  visiting order, and the traversal does not descend: whatever the number of points below
  the node. The threshold is strict: a visible node whose bounds span 5 pixels or more on
  the longer side is not aggregated; the visitor returns "continue", after one render
  call for each chained item when the node is a leaf and none when it is internal.
\<close>

theorem C1_aggregation_one_call:
  assumes "nodeVisible x0 y0 x1 y1"
  shows "(max \<bar>n2pX x0 - n2pX x1\<bar> \<bar>n2pY y0 - n2pY y1\<bar> < 5 \<and> wf_node node \<longrightarrow>
            visitTree xscale yscale x y nodeVisible (useAggregation n2pX n2pY) node x0 y0 x1 y1 =
              Inr (ABORT_TRAVERSAL,
                   [(xscale (x (hd (node_items node))), yscale (y (hd (node_items node))),
                     hd (node_items node))]) \<and>
            visit (visitTree xscale yscale x y nodeVisible (useAggregation n2pX n2pY))
                node x0 y0 x1 y1 =
              Inr [(xscale (x (hd (node_items node))), yscale (y (hd (node_items node))),
                    hd (node_items node))]) \<and>
         (5 \<le> max \<bar>n2pX x0 - n2pX x1\<bar> \<bar>n2pY y0 - n2pY y1\<bar> \<longrightarrow>
            visitTree xscale yscale x y nodeVisible (useAggregation n2pX n2pY) node x0 y0 x1 y1 =
              Inr (CONTINUE_TRAVERSAL,
                   if isLeafNode node
                   then map (\<lambda>d. (xscale (x d), yscale (y d), d)) (node_items node)
                   else []))"
proof (intro conjI impI)
  assume h: "max \<bar>n2pX x0 - n2pX x1\<bar> \<bar>n2pY y0 - n2pY y1\<bar> < 5 \<and> wf_node node"
  have agg: "useAggregation n2pX n2pY x0 y0 x1 y1"
    using h by (simp add: useAggregation_def)
  have first: "getFirstLeaf node = Some (hd (node_items node))"
    using h getFirstLeaf_hd by blast
  have one: "visitTree xscale yscale x y nodeVisible (useAggregation n2pX n2pY) node x0 y0 x1 y1 =
      Inr (True, [(xscale (x (hd (node_items node))), yscale (y (hd (node_items node))),
                  hd (node_items node))])"
    using assms agg first by (simp add: visitTree_def ABORT_TRAVERSAL_def)
  from one show "visitTree xscale yscale x y nodeVisible (useAggregation n2pX n2pY)
      node x0 y0 x1 y1 =
      Inr (ABORT_TRAVERSAL,
           [(xscale (x (hd (node_items node))), yscale (y (hd (node_items node))),
             hd (node_items node))])"
    by (simp add: ABORT_TRAVERSAL_def)
  from visit_abort [of "visitTree xscale yscale x y nodeVisible (useAggregation n2pX n2pY)"
      node x0 y0 x1 y1, OF one]
  show "visit (visitTree xscale yscale x y nodeVisible (useAggregation n2pX n2pY))
      node x0 y0 x1 y1 =
      Inr [(xscale (x (hd (node_items node))), yscale (y (hd (node_items node))),
            hd (node_items node))]"
    by simp
next
  assume h: "5 \<le> max \<bar>n2pX x0 - n2pX x1\<bar> \<bar>n2pY y0 - n2pY y1\<bar>"
  then have agg: "\<not> useAggregation n2pX n2pY x0 y0 x1 y1"
    by (auto simp: useAggregation_def)
  show "visitTree xscale yscale x y nodeVisible (useAggregation n2pX n2pY) node x0 y0 x1 y1 =
      Inr (CONTINUE_TRAVERSAL,
           if isLeafNode node
           then map (\<lambda>d. (xscale (x d), yscale (y d), d)) (node_items node)
           else [])"
    using assms agg by (cases node) (simp_all add: visitTree_def)
qed

theorem C1_aggregation_one_call_witness:
  "visit (visitTree (\<lambda>v. v) (\<lambda>v. v) real real (\<lambda>a b c d. True) (useAggregation (\<lambda>v. v) (\<lambda>v. v)))
     (Internal (Some (Leaf (1::nat) [2, 3])) None None (Some (Leaf 4 []))) 0 0 4 4 =
   Inr [(1, 1, 1)] \<and>
   visitTree (\<lambda>v. v) (\<lambda>v. v) real real (\<lambda>a b c d. True) (useAggregation (\<lambda>v. v) (\<lambda>v. v))
     (Leaf (1::nat) [2]) 1 0 6 5 =
   Inr (CONTINUE_TRAVERSAL, [(1, 1, 1), (2, 2, 2)])"
proof -
  have a: "(\<lambda>a b c d. True) (0::num) (0::num) (4::num) (4::num)" by simp
  have b: "max \<bar>(\<lambda>v. v) (0::num) - (\<lambda>v. v) 4\<bar> \<bar>(\<lambda>v. v) (0::num) - (\<lambda>v. v) 4\<bar> < 5 \<and>
      wf_node (Internal (Some (Leaf (1::nat) [2, 3])) None None (Some (Leaf 4 [])))"
    by simp
  have c: "(\<lambda>a b c d. True) (1::num) (0::num) (6::num) (5::num)" by simp
  have d: "5 \<le> max \<bar>(\<lambda>v. v) (1::num) - (\<lambda>v. v) 6\<bar> \<bar>(\<lambda>v. v) (0::num) - (\<lambda>v. v) 5\<bar>" by simp
  have first: "visit (visitTree (\<lambda>v. v) (\<lambda>v. v) real real (\<lambda>a b c d. True)
        (useAggregation (\<lambda>v. v) (\<lambda>v. v)))
      (Internal (Some (Leaf (1::nat) [2, 3])) None None (Some (Leaf 4 []))) 0 0 4 4 =
      Inr [(1, 1, 1)]"
    using C1_aggregation_one_call [where nodeVisible = "\<lambda>a b c d. True" and n2pX = "\<lambda>v. v"
        and n2pY = "\<lambda>v. v" and xscale = "\<lambda>v. v" and yscale = "\<lambda>v. v" and x = real and y = real
        and node = "Internal (Some (Leaf (1::nat) [2, 3])) None None (Some (Leaf 4 []))",
        OF a] b
    by (simp del: visit.simps)
  have second: "visitTree (\<lambda>v. v) (\<lambda>v. v) real real (\<lambda>a b c d. True)
        (useAggregation (\<lambda>v. v) (\<lambda>v. v)) (Leaf (1::nat) [2]) 1 0 6 5 =
      Inr (CONTINUE_TRAVERSAL, [(1, 1, 1), (2, 2, 2)])"
    using C1_aggregation_one_call [where nodeVisible = "\<lambda>a b c d. True" and n2pX = "\<lambda>v. v"
        and n2pY = "\<lambda>v. v" and xscale = "\<lambda>v. v" and yscale = "\<lambda>v. v" and x = real and y = real
        and node = "Leaf (1::nat) [2]", OF c] d
    by simp
  from first second show ?thesis by (rule conjI)
qed

theorem C1_five_pixels_counterexample:
  "max \<bar>(0::num) - 5\<bar> \<bar>(0::num) - 5\<bar> \<le> 5 \<and>
   visit (visitTree (\<lambda>v. v) (\<lambda>v. v) real real (\<lambda>a b c d. True) (useAggregation (\<lambda>v. v) (\<lambda>v. v)))
     (Leaf (1::nat) [2]) 0 0 5 5 = Inr [(1, 1, 1), (2, 2, 2)]"
  by (simp add: visitTree_def useAggregation_def CONTINUE_TRAVERSAL_def)

section \<open>C2: viewport culling\<close>

lemma hasOverlap_disjoint:
  assumes "ox0 \<le> ox1" and "oy0 \<le> oy1" and "x0 \<le> x1" and "y0 \<le> y1"
  shows "hasOverlap ox0 oy0 ox1 oy1 x0 y0 x1 y1 \<longleftrightarrow>
         (\<exists>px py. in_box ox0 oy0 ox1 oy1 px py \<and> in_box x0 y0 x1 y1 px py)"
proof
  assume "hasOverlap ox0 oy0 ox1 oy1 x0 y0 x1 y1"
  then have h: "ox0 \<le> x1" "oy0 \<le> y1" "x0 \<le> ox1" "y0 \<le> oy1"
    by (auto simp: hasOverlap_def isVisible_def split: if_splits)
  have "in_box ox0 oy0 ox1 oy1 (max ox0 x0) (max oy0 y0) \<and>
        in_box x0 y0 x1 y1 (max ox0 x0) (max oy0 y0)"
    using h assms by (simp add: in_box_def)
  then show "\<exists>px py. in_box ox0 oy0 ox1 oy1 px py \<and> in_box x0 y0 x1 y1 px py"
    by blast
next
  assume "\<exists>px py. in_box ox0 oy0 ox1 oy1 px py \<and> in_box x0 y0 x1 y1 px py"
  then show "hasOverlap ox0 oy0 ox1 oy1 x0 y0 x1 y1"
    by (auto simp: hasOverlap_def isVisible_def in_box_def)
qed

text \<open>
  C2. A visited node whose bounds share no point with the visible window (the window
  whose corners are the canvas's pixel corners mapped back through the live
  normalized-to-pixel scales) makes the visitor return "abort" with no render call,
  before the aggregation test and whatever that test would say, and the traversal of its
  subtree emits no render call.
\<close>

theorem C2_culling_no_calls:
  assumes "nx 0 \<le> nx boundsWidth" and "ny boundsHeight \<le> ny 0"
    and "x0 \<le> x1" and "y0 \<le> y1"
    and "\<not> (\<exists>px py. in_box (nx 0) (ny boundsHeight) (nx boundsWidth) (ny 0) px py \<and>
                   in_box x0 y0 x1 y1 px py)"
  shows "visitTree xscale yscale x y (isNodeVisible nx ny boundsWidth boundsHeight) aggregate
           node x0 y0 x1 y1 = Inr (ABORT_TRAVERSAL, []) \<and>
         visit (visitTree xscale yscale x y (isNodeVisible nx ny boundsWidth boundsHeight) aggregate)
           node x0 y0 x1 y1 = Inr []"
proof -
  have "\<not> isNodeVisible nx ny boundsWidth boundsHeight x0 y0 x1 y1"
    using assms hasOverlap_disjoint [of "nx 0" "nx boundsWidth" "ny boundsHeight" "ny 0" x0 x1 y0 y1]
    by (simp add: isNodeVisible_def)
  then have one: "visitTree xscale yscale x y (isNodeVisible nx ny boundsWidth boundsHeight) aggregate
      node x0 y0 x1 y1 = Inr (True, [])"
    by (simp add: visitTree_def ABORT_TRAVERSAL_def)
  from visit_abort [of "visitTree xscale yscale x y (isNodeVisible nx ny boundsWidth boundsHeight)
      aggregate" node x0 y0 x1 y1, OF one] one
  show ?thesis
    by (simp add: ABORT_TRAVERSAL_def)
qed

theorem C2_culling_no_calls_witness:
  "visit (visitTree (\<lambda>v. v) (\<lambda>v. v) real real
            (isNodeVisible (\<lambda>v. v) (\<lambda>v. 100 - v) 100 100) (\<lambda>a b c d. True))
     (Internal (Some (Leaf (1::nat) [2])) None None (Some (Leaf 3 []))) 200 200 300 300 = Inr []"
proof -
  have a: "(\<lambda>v. v) (0::num) \<le> (\<lambda>v. v) 100" by simp
  have b: "(\<lambda>v. 100 - v) (100::num) \<le> (\<lambda>v. 100 - v) 0" by simp
  have c: "(200::num) \<le> 300" by simp
  have d: "\<not> (\<exists>px py. in_box ((\<lambda>v. v) 0) ((\<lambda>v. 100 - v) 100) ((\<lambda>v. v) 100) ((\<lambda>v. 100 - v) 0) px py \<and>
                 in_box 200 200 300 300 px py)"
    by (auto simp: in_box_def)
  show ?thesis
    using C2_culling_no_calls [where nx = "\<lambda>v. v" and ny = "\<lambda>v. 100 - v" and xscale = "\<lambda>v. v"
        and yscale = "\<lambda>v. v" and x = real and y = real and aggregate = "\<lambda>a b c d. True"
        and node = "Internal (Some (Leaf (1::nat) [2])) None None (Some (Leaf 3 []))",
        OF a b c c d]
    by (simp del: visit.simps)
qed

section \<open>C5: the selection setter diffs, and is idempotent\<close>

lemma indexOf_neg: "indexOf s v < 0 \<longleftrightarrow> v \<notin> set s"
  by (induction s) (auto simp: Let_def)

lemma splice1_indexOf: "v \<in> set s \<Longrightarrow> splice1 s (nat (indexOf s v)) = remove1 v s"
proof (induction s)
  case Nil then show ?case by simp
next
  case (Cons a s)
  show ?case
  proof (cases "a = v")
    case True then show ?thesis by (simp add: splice1_def)
  next
    case False
    with Cons.prems have in_s: "v \<in> set s" by simp
    then have nn: "\<not> indexOf s v < 0" by (simp add: indexOf_neg)
    then have "nat (indexOf s v + 1) = Suc (nat (indexOf s v))" by simp
    with False nn Cons.IH [OF in_s] show ?thesis
      by (simp add: splice1_def Let_def)
  qed
qed

lemma mset_removeAll: "mset (quadtree_removeAll t ds) = mset t - mset ds"
  unfolding quadtree_removeAll_def
  by (induction ds arbitrary: t) (auto)

lemma mset_diff_member: "x \<in># S \<Longrightarrow> add_mset x R - S = R - (S - {#x#})"
  by (metis add_mset_diff_bothsides insert_DiffM)

lemma mset_diff_nonmember: "x \<notin># S \<Longrightarrow> add_mset x R - S = add_mset x (R - S)"
  by (simp add: multiset_eq_iff not_in_iff)

lemma mset_swap_identity: "(T::'a multiset) + (S - T) - (T - S) = S"
proof (rule multiset_eqI)
  fix a
  show "count (T + (S - T) - (T - S)) a = count S a"
    by simp
qed

lemma forEach_inv:
  "selection_forEach sel s t changed adds = (s', t', changed', adds') \<Longrightarrow>
   mset s' = mset s - mset sel \<and>
   (\<exists>new. adds' = adds @ new \<and> t' = t @ new \<and> mset new = mset sel - mset s) \<and>
   (changed' \<longleftrightarrow> changed \<or> \<not> mset sel \<subseteq># mset s)"
proof (induction sel arbitrary: s t changed adds)
  case Nil then show ?case by simp
next
  case (Cons x rest)
  show ?case
  proof (cases "x \<in> set s")
    case True
    then have nn: "\<not> indexOf s x < 0" by (simp add: indexOf_neg)
    from Cons.prems nn True have
      "selection_forEach rest (remove1 x s) t changed adds = (s', t', changed', adds')"
      by (simp add: Let_def splice1_indexOf)
    from Cons.IH [OF this] have
      a: "mset s' = mset (remove1 x s) - mset rest" and
      b: "\<exists>new. adds' = adds @ new \<and> t' = t @ new \<and> mset new = mset rest - mset (remove1 x s)" and
      c: "changed' \<longleftrightarrow> changed \<or> \<not> mset rest \<subseteq># mset (remove1 x s)"
      by blast+
    have x_in: "x \<in># mset s" using True by simp
    have 1: "mset s' = mset s - mset (x # rest)"
      using a by (simp add: diff_diff_add [symmetric] del: diff_diff_add)
    have 2: "mset rest - mset (remove1 x s) = mset (x # rest) - mset s"
      using mset_diff_member [OF x_in, of "mset rest"] by simp
    have 3: "mset (x # rest) \<subseteq># mset s \<longleftrightarrow> mset rest \<subseteq># mset (remove1 x s)"
      using x_in by (simp add: insert_subset_eq_iff)
    from 1 2 3 b c show ?thesis by simp
  next
    case False
    then have neg: "indexOf s x < 0" by (simp add: indexOf_neg)
    from Cons.prems neg have
      "selection_forEach rest s (t @ [x]) True (adds @ [x]) = (s', t', changed', adds')"
      by (simp add: Let_def quadtree_add_def)
    from Cons.IH [OF this] have
      a: "mset s' = mset s - mset rest" and
      b: "\<exists>new. adds' = (adds @ [x]) @ new \<and> t' = (t @ [x]) @ new \<and> mset new = mset rest - mset s" and
      c: "changed'"
      by blast+
    have x_out: "x \<notin># mset s" using False by simp
    from b obtain new where new: "adds' = adds @ (x # new)" "t' = t @ (x # new)"
      "mset new = mset rest - mset s" by auto
    have 1: "mset s' = mset s - mset (x # rest)"
      using a x_out by (simp add: diff_single_trivial)
    have 2: "mset (x # new) = mset (x # rest) - mset s"
      using new(3) mset_diff_nonmember [OF x_out, of "mset rest"] by simp
    have 3: "\<not> mset (x # rest) \<subseteq># mset s"
      using x_out by (auto simp: insert_subset_eq_iff)
    from 1 2 3 new c show ?thesis by blast
  qed
qed


lemma set_selection_same:
  assumes "mset selection = mset t"
  shows "set_selection selection t =
    \<lparr>sel_index = t, sel_adds = [], sel_removes = [], sel_rebuilt = False, sel_rendered = False\<rparr>"
proof (cases "selection = []")
  case True
  with assms show ?thesis by (simp add: set_selection_def)
next
  case False
  obtain s' t' changed' adds' where
    loop: "selection_forEach selection t t False [] = (s', t', changed', adds')"
    by (metis prod_cases4)
  from forEach_inv [OF loop] assms have "s' = []" "adds' = []" "t' = t" "\<not> changed'"
    by auto
  with False loop show ?thesis
    by (simp add: set_selection_def quadtree_removeAll_def)
qed

lemma set_selection_index: "mset (sel_index (set_selection selection t)) = mset selection"
proof (cases "selection = []")
  case True
  then show ?thesis by (simp add: set_selection_def)
next
  case False
  obtain s' t' changed' adds' where
    loop: "selection_forEach selection t t False [] = (s', t', changed', adds')"
    by (metis prod_cases4)
  from forEach_inv [OF loop] obtain new where
    "mset s' = mset t - mset selection" "t' = t @ new" "mset new = mset selection - mset t"
    by auto
  then have "mset (quadtree_removeAll t' s') = mset selection"
    by (simp add: mset_removeAll mset_swap_identity)
  with False loop show ?thesis
    by (simp add: set_selection_def)
qed

lemma set_selection_log:
  "mset (sel_adds (set_selection selection t)) = mset selection - mset t \<and>
   mset (sel_removes (set_selection selection t)) =
     (if selection = [] then {#} else mset t - mset selection) \<and>
   (sel_rebuilt (set_selection selection t) \<longleftrightarrow> selection = [] \<and> t \<noteq> []) \<and>
   (sel_rendered (set_selection selection t) \<longleftrightarrow> mset selection \<noteq> mset t)"
proof (cases "selection = []")
  case True
  then show ?thesis by (auto simp: set_selection_def)
next
  case False
  obtain s' t' changed' adds' where
    loop: "selection_forEach selection t t False [] = (s', t', changed', adds')"
    by (metis prod_cases4)
  from forEach_inv [OF loop] have
    a: "mset s' = mset t - mset selection" and
    b: "mset adds' = mset selection - mset t" and
    c: "changed' \<longleftrightarrow> \<not> mset selection \<subseteq># mset t"
    by auto
  have d: "(changed' \<or> s' \<noteq> []) \<longleftrightarrow> mset selection \<noteq> mset t"
  proof
    assume "changed' \<or> s' \<noteq> []"
    then show "mset selection \<noteq> mset t"
      using a c by auto
  next
    assume ne: "mset selection \<noteq> mset t"
    show "changed' \<or> s' \<noteq> []"
    proof (rule ccontr)
      assume "\<not> (changed' \<or> s' \<noteq> [])"
      then have "mset selection \<subseteq># mset t" "mset t - mset selection = {#}"
        using a c by auto
      then have "mset selection = mset t"
        by (metis Diff_eq_empty_iff_mset subset_mset.antisym)
      with ne show False by simp
    qed
  qed
  from False loop a b d show ?thesis
    by (simp add: set_selection_def)
qed

text \<open>
  C5. Assigning a selection with the same items as the current one (as a multiset: any
  order) leaves the selection index as it is, with no \<open>add\<close>, nothing removed, no
  rebuild and no render; so assigning any selection twice in a row does nothing the
  second time. For every assignment the index afterwards holds exactly the items
  assigned; the items added are those of the new selection missing from the old one,
  the items removed those of the old one missing from the new one; the index is
  replaced wholesale only when a non-empty selection is cleared; and \<open>render()\<close> is
  called exactly when the items changed. Clearing an empty selection is a no-op.
\<close>

theorem C5_selection_diff_idempotent:
  "(mset selection = mset t \<longrightarrow>
      set_selection selection t =
        \<lparr>sel_index = t, sel_adds = [], sel_removes = [], sel_rebuilt = False,
         sel_rendered = False\<rparr>) \<and>
   set_selection selection (sel_index (set_selection selection t)) =
     \<lparr>sel_index = sel_index (set_selection selection t), sel_adds = [], sel_removes = [],
      sel_rebuilt = False, sel_rendered = False\<rparr> \<and>
   mset (sel_index (set_selection selection t)) = mset selection \<and>
   mset (sel_adds (set_selection selection t)) = mset selection - mset t \<and>
   mset (sel_removes (set_selection selection t)) =
     (if selection = [] then {#} else mset t - mset selection) \<and>
   (sel_rebuilt (set_selection selection t) \<longleftrightarrow> selection = [] \<and> t \<noteq> []) \<and>
   (sel_rendered (set_selection selection t) \<longleftrightarrow> mset selection \<noteq> mset t)"
  using set_selection_same [of selection t]
    set_selection_same [of selection "sel_index (set_selection selection t)"]
    set_selection_index [of selection t] set_selection_log [of selection t]
  by simp

theorem C5_selection_diff_idempotent_witness:
  "mset [1, 2::nat] = mset [2, 1] \<and>
   set_selection [1, 2::nat] [2, 1] =
     \<lparr>sel_index = [2, 1], sel_adds = [], sel_removes = [], sel_rebuilt = False,
      sel_rendered = False\<rparr> \<and>
   mset ([]::nat list) = mset [] \<and>
   set_selection ([]::nat list) [] =
     \<lparr>sel_index = [], sel_adds = [], sel_removes = [], sel_rebuilt = False,
      sel_rendered = False\<rparr>"
proof -
  have a: "mset [1, 2::nat] = mset [2, 1]" by simp
  have b: "mset ([]::nat list) = mset []" by simp
  from a b C5_selection_diff_idempotent [of "[1, 2::nat]" "[2, 1]"]
    C5_selection_diff_idempotent [of "[]::nat list" "[]"]
  show ?thesis by blast
qed

lemma set_selection_example:
  "set_selection [1, 3::nat] [2, 1] =
     \<lparr>sel_index = [1, 3], sel_adds = [3], sel_removes = [2], sel_rebuilt = False,
      sel_rendered = True\<rparr>"
  by (simp add: set_selection_def Let_def splice1_def quadtree_add_def quadtree_removeAll_def)

section \<open>The render state machine\<close>

lemma render_no_resize:
  "width s = clientWidth s \<Longrightarrow> height s = clientHeight s \<Longrightarrow>
   render reason transformDelta s = render_body reason transformDelta s"
  by (subst render.simps) (simp add: checkResize_def)

lemma render_resize:
  "width s \<noteq> clientWidth s \<or> height s \<noteq> clientHeight s \<Longrightarrow>
   render reason transformDelta s =
     render_body DIRTY default_delta (s\<lparr>width := clientWidth s, height := clientHeight s\<rparr>)"
  by (subst render.simps) (simp add: checkResize_def render_no_resize)

lemmas action_defs = andThen_def skip_def emit_render_def setRanges_def renderCtx_def
  renderData_def renderSecondaryData_def renderSelection_def transformData_def
  renderAxes_def clearAutoZoomRedraw_def setAutoZoomRedraw_def Let_def

lemma render_body_frame:
  "tree (snd (render_body reason d s)) = tree s \<and>
   selectionTree (snd (render_body reason d s)) = selectionTree s \<and>
   width (snd (render_body reason d s)) = width s \<and>
   height (snd (render_body reason d s)) = height s \<and>
   clientWidth (snd (render_body reason d s)) = clientWidth s \<and>
   clientHeight (snd (render_body reason d s)) = clientHeight s"
  by (cases reason) (simp_all add: render_body_def action_defs)

lemma render_frame:
  "tree (snd (render reason d s)) = tree s \<and>
   selectionTree (snd (render reason d s)) = selectionTree s \<and>
   width (snd (render reason d s)) = clientWidth s \<and>
   height (snd (render reason d s)) = clientHeight s \<and>
   clientWidth (snd (render reason d s)) = clientWidth s \<and>
   clientHeight (snd (render reason d s)) = clientHeight s"
proof (cases "width s = clientWidth s \<and> height s = clientHeight s")
  case True
  then show ?thesis
    using render_body_frame [of reason d s] by (simp add: render_no_resize)
next
  case False
  then have "width s \<noteq> clientWidth s \<or> height s \<noteq> clientHeight s" by blast
  from render_resize [OF this, of reason d]
    render_body_frame [of DIRTY default_delta "s\<lparr>width := clientWidth s, height := clientHeight s\<rparr>"]
  show ?thesis by simp
qed

lemma render_body_n2p_domain:
  "sdomain (normalized2pixel_x (snd (render_body reason d s))) = sdomain (normalized2pixel_x s) \<and>
   sdomain (normalized2pixel_y (snd (render_body reason d s))) = sdomain (normalized2pixel_y s)"
  by (cases reason) (simp_all add: render_body_def action_defs)

lemma render_n2p_domain:
  "sdomain (normalized2pixel_x (snd (render reason d s))) = sdomain (normalized2pixel_x s) \<and>
   sdomain (normalized2pixel_y (snd (render reason d s))) = sdomain (normalized2pixel_y s)"
proof (cases "width s = clientWidth s \<and> height s = clientHeight s")
  case True
  then show ?thesis
    using render_body_n2p_domain [of reason d s] by (simp add: render_no_resize)
next
  case False
  then have "width s \<noteq> clientWidth s \<or> height s \<noteq> clientHeight s" by blast
  from render_resize [OF this, of reason d]
    render_body_n2p_domain [of DIRTY default_delta
      "s\<lparr>width := clientWidth s, height := clientHeight s\<rparr>"]
  show ?thesis by simp
qed

lemma render_body_emits:
  "take 1 (fst (render_body reason d s)) = [Emit (reason_name reason) d] \<and>
   filter is_emit (fst (render_body reason d s)) = [Emit (reason_name reason) d]"
  by (cases reason) (simp_all add: render_body_def action_defs)

text \<open>
  C8. Every \<open>render\<close> starts with the resize check, which compares the canvas's
  drawing buffer with its client size. When they differ, for every render reason and
  delta: the check sets the buffer to the client size and is true, the render for the
  given reason is given up, and what happens instead is a DIRTY render with the default
  delta on the updated plot (whose own resize check is false): no effect of the call
  belongs to the original reason.
\<close>

theorem C8_resize_restarts_dirty:
  assumes "width s \<noteq> clientWidth s \<or> height s \<noteq> clientHeight s"
  shows "fst (checkResize s) \<and>
         snd (checkResize s) = s\<lparr>width := clientWidth s, height := clientHeight s\<rparr> \<and>
         \<not> fst (checkResize (snd (checkResize s))) \<and>
         render reason transformDelta s = render DIRTY default_delta (snd (checkResize s)) \<and>
         render DIRTY default_delta (snd (checkResize s)) =
           render_body DIRTY default_delta (snd (checkResize s))"
  using assms render_resize [OF assms, of reason transformDelta]
    render_no_resize [of "s\<lparr>width := clientWidth s, height := clientHeight s\<rparr>" DIRTY default_delta]
  by (auto simp: checkResize_def)

text \<open>
  C10. A \<open>render\<close> that passes the resize check emits the render event exactly once,
  with the name of its reason and its delta, as its first effect: before any scale range
  is set and before any drawing, for every reason (AFTER_SCALE and
  AFTER_SCALE_AND_TRANSLATE included). A render stopped by the resize check emits exactly
  one event as well, that of the DIRTY render that replaces it, with the default delta.
\<close>

theorem C10_render_event:
  "(width s = clientWidth s \<and> height s = clientHeight s \<longrightarrow>
      take 1 (fst (render reason transformDelta s)) = [Emit (reason_name reason) transformDelta] \<and>
      filter is_emit (fst (render reason transformDelta s)) =
        [Emit (reason_name reason) transformDelta]) \<and>
   (width s \<noteq> clientWidth s \<or> height s \<noteq> clientHeight s \<longrightarrow>
      take 1 (fst (render reason transformDelta s)) = [Emit ''DIRTY'' default_delta] \<and>
      filter is_emit (fst (render reason transformDelta s)) = [Emit ''DIRTY'' default_delta])"
proof (intro conjI impI)
  assume a: "width s = clientWidth s \<and> height s = clientHeight s"
  then have r: "render reason transformDelta s = render_body reason transformDelta s"
    by (simp add: render_no_resize)
  show "take 1 (fst (render reason transformDelta s)) = [Emit (reason_name reason) transformDelta]"
    using render_body_emits [of reason transformDelta s] r by simp
  show "filter is_emit (fst (render reason transformDelta s)) =
        [Emit (reason_name reason) transformDelta]"
    using render_body_emits [of reason transformDelta s] r by simp
next
  assume a: "width s \<noteq> clientWidth s \<or> height s \<noteq> clientHeight s"
  note r = render_resize [OF a, of reason transformDelta]
  note e = render_body_emits [of DIRTY default_delta
      "s\<lparr>width := clientWidth s, height := clientHeight s\<rparr>"]
  show "take 1 (fst (render reason transformDelta s)) = [Emit ''DIRTY'' default_delta]"
    using r e by simp
  show "filter is_emit (fst (render reason transformDelta s)) = [Emit ''DIRTY'' default_delta]"
    using r e by simp
qed

text \<open>
  C7, as amended. A render with reason AFTER_SCALE or AFTER_SCALE_AND_TRANSLATE that
  passes the resize check emits its render event and does nothing else: nothing is
  drawn, no timer is touched, the plot is as before. It does not fall through to the
  full redraw of the default branch.
\<close>

theorem C7_after_scale_draws_nothing:
  assumes "width s = clientWidth s" and "height s = clientHeight s"
  shows "render AFTER_SCALE transformDelta s = ([Emit ''AFTER_SCALE'' transformDelta], s) \<and>
         render AFTER_SCALE_AND_TRANSLATE transformDelta s =
           ([Emit ''AFTER_SCALE_AND_TRANSLATE'' transformDelta], s)"
  using assms by (simp add: render_no_resize render_body_def action_defs)

theorem C8_resize_restarts_dirty_witness:
  "render PERFORM_TRANSLATE \<lparr>delta_x = 20, delta_y = 0, delta_kx = 1, delta_ky = 1\<rparr>
     (plot0\<lparr>clientWidth := 200\<rparr>) =
   render_body DIRTY default_delta (plot0\<lparr>clientWidth := 200, width := 200\<rparr>)"
proof -
  have a: "width (plot0\<lparr>clientWidth := 200\<rparr>) \<noteq> clientWidth (plot0\<lparr>clientWidth := 200\<rparr>) \<or>
           height (plot0\<lparr>clientWidth := 200\<rparr>) \<noteq> clientHeight (plot0\<lparr>clientWidth := 200\<rparr>)"
    by (simp add: plot0_def)
  have b: "snd (checkResize (plot0\<lparr>clientWidth := 200\<rparr>)) = plot0\<lparr>clientWidth := 200, width := 200\<rparr>"
    by (simp add: checkResize_def plot0_def)
  from C8_resize_restarts_dirty [OF a, of PERFORM_TRANSLATE
      "\<lparr>delta_x = 20, delta_y = 0, delta_kx = 1, delta_ky = 1\<rparr>"] b
  show ?thesis by simp
qed

lemma plot0_no_resize: "width plot0 = clientWidth plot0 \<and> height plot0 = clientHeight plot0"
  by (simp add: plot0_def)

theorem C7_after_scale_counterexample:
  "fst (render AFTER_SCALE default_delta plot0) = [Emit ''AFTER_SCALE'' default_delta] \<and>
   fst (render PERFORM_SCALE default_delta plot0) =
     [Emit ''PERFORM_SCALE'' default_delta, ClearRect Canvas0,
      RenderTree Canvas0 PrimaryTree NORMAL, RenderAxes, ClearRect Canvas1,
      RenderTree Canvas1 SelectionTree SELECTED, LassoRender Canvas1]"
  using plot0_no_resize
  by (simp add: render_no_resize render_body_def action_defs) (simp add: plot0_def)


theorem C7_after_scale_draws_nothing_witness:
  "render AFTER_SCALE default_delta plot0 = ([Emit ''AFTER_SCALE'' default_delta], plot0)"
  using C7_after_scale_draws_nothing [of plot0 default_delta] plot0_no_resize by simp

theorem C10_render_event_witness:
  "filter is_emit (fst (render AFTER_SCALE default_delta plot0)) =
     [Emit ''AFTER_SCALE'' default_delta] \<and>
   filter is_emit (fst (render SELECTION_CHANGED default_delta (plot0\<lparr>clientHeight := 50\<rparr>))) =
     [Emit ''DIRTY'' default_delta]"
proof -
  have a: "width plot0 = clientWidth plot0 \<and> height plot0 = clientHeight plot0"
    by (simp add: plot0_def)
  have b: "width (plot0\<lparr>clientHeight := 50\<rparr>) \<noteq> clientWidth (plot0\<lparr>clientHeight := 50\<rparr>) \<or>
           height (plot0\<lparr>clientHeight := 50\<rparr>) \<noteq> clientHeight (plot0\<lparr>clientHeight := 50\<rparr>)"
    by (simp add: plot0_def)
  from a b C10_render_event [of plot0 AFTER_SCALE default_delta]
    C10_render_event [of "plot0\<lparr>clientHeight := 50\<rparr>" SELECTION_CHANGED default_delta]
  show ?thesis by simp
qed

section \<open>C4: panning and the settle timer\<close>








section \<open>C6: the click radius and the click scenario\<close>

lemma click_plot_value:
  "click_plot =
     plot0\<lparr>props_xscale := scaleLinear\<lparr>sdomain := (0, 100), srange := (0, 100)\<rparr>,
           props_yscale := scaleLinear\<lparr>sdomain := (0, 100), srange := (100, 0)\<rparr>,
           normalized2pixel_x := scaleLinear\<lparr>sdomain := (0, 100), srange := (0, 100)\<rparr>,
           normalized2pixel_y := scaleLinear\<lparr>sdomain := (0, 100), srange := (100, 0)\<rparr>,
           tree := quadtree [(10, 10), (90, 90)]
              (\<lambda>d. scale_apply (scaleLinear\<lparr>sdomain := (0, 100), srange := (0, 100)\<rparr>) (fst d))
              (\<lambda>d. scale_apply (scaleLinear\<lparr>sdomain := (0, 100), srange := (0, 100)\<rparr>) (snd d)),
           selectionTree := quadtree []
              (\<lambda>d. scale_apply (scaleLinear\<lparr>sdomain := (0, 100), srange := (0, 100)\<rparr>) (fst d))
              (\<lambda>d. scale_apply (scaleLinear\<lparr>sdomain := (0, 100), srange := (0, 100)\<rparr>) (snd d))\<rparr>"
  by (simp add: click_plot_def constructor_def setDataImpl_def plot0_def render_no_resize
     render_body_def action_defs quadtree_def DEFAULT_NORMALIZED_RANGE_def no_margins_def
     bounds_width_def bounds_height_def)

lemmas scale_defs = scale_apply_def scale_invert_def scaleLinear_def bimap_def normalize_def
  interpolateNumber_def

lemma click_plot_radius: "computeClickRadius click_plot = Some (10, 10)"
  by (simp add: click_plot_value plot0_def computeClickRadius_def jsdiv_def range_size_def
      zoomIdentity_def scaleLinear_def)

lemma click_plot_pos:
  "getMouseNormalizedPos (px, py) click_plot =
     Some \<lparr>mouse_x = px, mouse_y = 100 - py, clickRadiusX = 10, clickRadiusY = 10\<rparr>"
  by (simp add: getMouseNormalizedPos_def click_plot_radius transformedNormalized2PixelScales_def)
     (simp add: click_plot_value plot0_def rescale_def rescaleX_def rescaleY_def invertX_def
        invertY_def zoomIdentity_def scale_defs)

lemma click_plot_find:
  "findByTester (tree click_plot) (ellipseTester cx cy 10 10) =
     filter (\<lambda>d. ((fst d - cx) / 10)\<^sup>2 + ((snd d - cy) / 10)\<^sup>2 \<le> 1) [(10, 10), (90, 90)]"
  by (simp add: findByTester_def ellipseTester_def click_plot_value plot0_def quadtree_def scale_defs)

lemma click_plot_selection: "qdata (selectionTree click_plot) = []"
  by (simp add: click_plot_value plot0_def quadtree_def)

lemma assign_selection_index:
  "qdata (selectionTree (snd (assign_selection sel s))) =
     sel_index (set_selection sel (qdata (selectionTree s)))"
  using render_frame [of SELECTION_CHANGED default_delta
      "s\<lparr>selectionTree := (selectionTree s)
          \<lparr>qdata := sel_index (set_selection sel (qdata (selectionTree s)))\<rparr>\<rparr>"]
  by (simp add: assign_selection_def Let_def)

lemma click_selection:
  "map_option (\<lambda>r. qdata (selectionTree (snd r))) (onClick 0 (px, py) click_plot) =
     Some (sel_index (set_selection
       (filter (\<lambda>d. ((fst d - px) / 10)\<^sup>2 + ((snd d - (100 - py)) / 10)\<^sup>2 \<le> 1)
          [(10, 10), (90, 90)]) []))"
  by (simp add: onClick_def click_plot_pos selectWithTester_def assign_selection_index
      click_plot_find click_plot_selection)

text \<open>
  C6, as amended. The click radius \<open>r\<close> in pixels becomes, on each axis, the radius
  \<open>r / (k * |pixel range|) * |normalized domain|\<close> in normalized units, where \<open>k\<close> is the
  scale factor of the current transform when the zoom-axis mask includes the axis and 1
  otherwise; it is computed from the plot as it is at the query. In the scenario (points
  (10, 10) and (90, 90), domain [0, 100] on both axes, canvas of 100 by 100 pixels, no
  margins, click radius 10) the point (10, 10) is drawn at the pixel (10, 90), the pixel
  y axis being inverted, and a click there selects exactly that point.
\<close>

theorem C6_click_radius:
  "((if zoom_scale s = EScaleAxes_x \<or> zoom_scale s = EScaleAxes_xy
     then tk (currentTransform s) else 1) * range_size (srange (normalized2pixel_x s)) \<noteq> 0 \<and>
    (if zoom_scale s = EScaleAxes_y \<or> zoom_scale s = EScaleAxes_xy
     then tk (currentTransform s) else 1) * range_size (srange (normalized2pixel_y s)) \<noteq> 0 \<longrightarrow>
    map_option (\<lambda>m. (clickRadiusX m, clickRadiusY m)) (getMouseNormalizedPos pos s) =
      Some (clickRadius s /
              ((if zoom_scale s = EScaleAxes_x \<or> zoom_scale s = EScaleAxes_xy
                then tk (currentTransform s) else 1) *
               range_size (srange (normalized2pixel_x s))) *
              range_size (sdomain (normalized2pixel_x s)),
            clickRadius s /
              ((if zoom_scale s = EScaleAxes_y \<or> zoom_scale s = EScaleAxes_xy
                then tk (currentTransform s) else 1) *
               range_size (srange (normalized2pixel_y s))) *
              range_size (sdomain (normalized2pixel_y s)))) \<and>
   map_option (\<lambda>r. qdata (selectionTree (snd r))) (onClick 0 (10, 90) click_plot) =
     Some [(10, 10)]"
proof (intro conjI impI)
  show "map_option (\<lambda>r. qdata (selectionTree (snd r))) (onClick 0 (10, 90) click_plot) =
     Some [(10, 10)]"
    unfolding click_selection
    by (simp add: set_selection_def Let_def quadtree_add_def quadtree_removeAll_def power2_eq_square)
next
  assume "(if zoom_scale s = EScaleAxes_x \<or> zoom_scale s = EScaleAxes_xy
     then tk (currentTransform s) else 1) * range_size (srange (normalized2pixel_x s)) \<noteq> 0 \<and>
    (if zoom_scale s = EScaleAxes_y \<or> zoom_scale s = EScaleAxes_xy
     then tk (currentTransform s) else 1) * range_size (srange (normalized2pixel_y s)) \<noteq> 0"
  then show "map_option (\<lambda>m. (clickRadiusX m, clickRadiusY m)) (getMouseNormalizedPos pos s) =
      Some (clickRadius s /
              ((if zoom_scale s = EScaleAxes_x \<or> zoom_scale s = EScaleAxes_xy
                then tk (currentTransform s) else 1) *
               range_size (srange (normalized2pixel_x s))) *
              range_size (sdomain (normalized2pixel_x s)),
            clickRadius s /
              ((if zoom_scale s = EScaleAxes_y \<or> zoom_scale s = EScaleAxes_xy
                then tk (currentTransform s) else 1) *
               range_size (srange (normalized2pixel_y s))) *
              range_size (sdomain (normalized2pixel_y s)))"
    by (simp add: getMouseNormalizedPos_def computeClickRadius_def jsdiv_def Let_def
        split: prod.splits)
qed

theorem C6_click_radius_witness:
  "map_option (\<lambda>m. (clickRadiusX m, clickRadiusY m)) (getMouseNormalizedPos (10, 90) click_plot) =
     Some (10, 10) \<and>
   map_option (\<lambda>r. qdata (selectionTree (snd r))) (onClick 0 (10, 90) click_plot) =
     Some [(10, 10)]"
  using C6_click_radius [of click_plot "(10, 90)"]
  by (simp add: click_plot_pos)

theorem C6_click_scenario_counterexample:
  "map_option (\<lambda>r. qdata (selectionTree (snd r))) (onClick 0 (10, 10) click_plot) = Some []"
  unfolding click_selection
  by (simp add: set_selection_def power2_eq_square)


section \<open>C9 and C3: replacing the data\<close>

text \<open>
  C9. The \<open>data\<close> setter rebuilds the primary index from the new data and replaces the
  selection index by an empty quadtree with the coordinate functions of the new primary
  index, before it renders with the reason DIRTY; the render changes neither index, so
  the selection is empty after every data replacement, whatever it was before.
\<close>

theorem C9_data_clears_selection:
  "qdata (selectionTree (set_data_assign ds s)) = [] \<and>
   qx (selectionTree (set_data_assign ds s)) = qx (tree (set_data_assign ds s)) \<and>
   qy (selectionTree (set_data_assign ds s)) = qy (tree (set_data_assign ds s)) \<and>
   qdata (tree (set_data_assign ds s)) = ds \<and>
   set_data ds s = render DIRTY default_delta (set_data_assign ds s) \<and>
   qdata (selectionTree (snd (set_data ds s))) = [] \<and>
   qdata (tree (snd (set_data ds s))) = ds"
  using render_frame [of DIRTY default_delta "set_data_assign ds s"]
  by (simp add: set_data_def) (simp add: set_data_assign_def setDataImpl_def quadtree_def Let_def)

theorem C9_data_clears_selection_witness:
  "qdata (selectionTree (snd (set_data [(1, 2)]
      (plot0\<lparr>selectionTree := quadtree [(3, 4), (5, 6)] fst snd\<rparr>)))) = []"
  using C9_data_clears_selection [of "[(1, 2)]"
      "plot0\<lparr>selectionTree := quadtree [(3, 4), (5, 6)] fst snd\<rparr>"]
  by fast

lemma constructor_tree:
  "tree (constructor ds s) =
     quadtree ds
       (\<lambda>d. scale_apply ((props_xscale s)\<lparr>srange := (0, 100 * aspectRatio s)\<rparr>) (props_x s d))
       (\<lambda>d. scale_apply ((props_yscale s)\<lparr>srange := (0, 100)\<rparr>) (props_y s d))"
  by (simp add: constructor_def setDataImpl_def DEFAULT_NORMALIZED_RANGE_def Let_def)

text \<open>
  C3, as amended. The constructor and the \<open>data\<close> setter build the primary index once
  for the data given, and no render rebuilds it. Each datum \<open>d\<close> is stored at
  \<open>(dx (x d), dy (y d))\<close>, where \<open>dx\<close> and \<open>dy\<close> are the domain scales with their
  ranges replaced by the normalized domain: \<open>[0, 100]\<close> times the aspect ratio on x,
  \<open>[0, 100]\<close> on y. The stored coordinates are the images of the raw values under these
  scales (they depend on the raw values, through the scale's domain and shape), and they
  do not depend on the pixel ranges of the scales, the canvas size or the zoom transform.
\<close>

theorem C3_index_coordinates:
  "tree (constructor ds s) =
     quadtree ds
       (\<lambda>d. scale_apply ((props_xscale s)\<lparr>srange := (0, 100 * aspectRatio s)\<rparr>) (props_x s d))
       (\<lambda>d. scale_apply ((props_yscale s)\<lparr>srange := (0, 100)\<rparr>) (props_y s d)) \<and>
   (sdomain (normalized2pixel_x s) = (0, 100 * aspectRatio s) \<and>
    sdomain (normalized2pixel_y s) = (0, 100) \<longrightarrow>
      tree (set_data_assign ds s) = tree (constructor ds s)) \<and>
   tree (constructor ds
      (s\<lparr>width := w, height := h, clientWidth := cw, clientHeight := ch,
         currentTransform := t,
         props_xscale := (props_xscale s)\<lparr>srange := rx\<rparr>,
         props_yscale := (props_yscale s)\<lparr>srange := ry\<rparr>,
         normalized2pixel_x := (normalized2pixel_x s)\<lparr>srange := rx\<rparr>,
         normalized2pixel_y := (normalized2pixel_y s)\<lparr>srange := ry\<rparr>\<rparr>)) =
     tree (constructor ds s) \<and>
   tree (snd (render reason transformDelta s)) = tree s \<and>
   sdomain (normalized2pixel_x (snd (render reason transformDelta s))) =
     sdomain (normalized2pixel_x s) \<and>
   sdomain (normalized2pixel_y (snd (render reason transformDelta s))) =
     sdomain (normalized2pixel_y s)"
proof -
  have a: "tree (constructor ds s) =
     quadtree ds
       (\<lambda>d. scale_apply ((props_xscale s)\<lparr>srange := (0, 100 * aspectRatio s)\<rparr>) (props_x s d))
       (\<lambda>d. scale_apply ((props_yscale s)\<lparr>srange := (0, 100)\<rparr>) (props_y s d))"
    by (rule constructor_tree)
  have b: "sdomain (normalized2pixel_x s) = (0, 100 * aspectRatio s) \<and>
    sdomain (normalized2pixel_y s) = (0, 100) \<longrightarrow>
      tree (set_data_assign ds s) = tree (constructor ds s)"
    by (simp add: a) (simp add: set_data_assign_def setDataImpl_def Let_def)
  have c: "tree (constructor ds
      (s\<lparr>width := w, height := h, clientWidth := cw, clientHeight := ch,
         currentTransform := t,
         props_xscale := (props_xscale s)\<lparr>srange := rx\<rparr>,
         props_yscale := (props_yscale s)\<lparr>srange := ry\<rparr>,
         normalized2pixel_x := (normalized2pixel_x s)\<lparr>srange := rx\<rparr>,
         normalized2pixel_y := (normalized2pixel_y s)\<lparr>srange := ry\<rparr>\<rparr>)) =
     tree (constructor ds s)"
    by (simp add: constructor_tree)
  show ?thesis
    using a b c render_frame [of reason transformDelta s]
      render_n2p_domain [of reason transformDelta s]
    by simp
qed


theorem C3_index_coordinates_witness:
  "sdomain (normalized2pixel_x (constructor [] plot0)) = (0, 100 * aspectRatio (constructor [] plot0)) \<and>
   sdomain (normalized2pixel_y (constructor [] plot0)) = (0, 100) \<and>
   tree (set_data_assign [(10, 10), (90, 90)] (constructor [] plot0)) =
     tree (constructor [(10, 10), (90, 90)] (constructor [] plot0))"
proof -
  have a: "sdomain (normalized2pixel_x (constructor [] plot0)) =
      (0, 100 * aspectRatio (constructor [] plot0)) \<and>
    sdomain (normalized2pixel_y (constructor [] plot0)) = (0, 100)"
    by (simp add: constructor_def setDataImpl_def DEFAULT_NORMALIZED_RANGE_def Let_def plot0_def)
  from a C3_index_coordinates [of "[(10, 10), (90, 90)]" "constructor [] plot0"]
  show ?thesis by fast
qed

theorem C3_raw_values_counterexample:
  "qx (tree (constructor [(10, 10), (90, 90)] plot0)) (10, 10) = 10 \<and>
   qx (tree (constructor [(10, 10), (90, 90)] plot0)) (90, 90) = 90"
  by (simp add: constructor_tree quadtree_def plot0_def scale_apply_def scaleLinear_def
      bimap_def normalize_def interpolateNumber_def)

section \<open>C4: the settle timer is the plot's only timeout\<close>

lemma render_body_timers_ok:
  "timers_ok s \<Longrightarrow> timers_ok (snd (render_body reason d s))"
  by (cases reason)
     (auto simp: render_body_def action_defs timers_ok_def list_all_iff)

lemma render_timers_ok:
  assumes "timers_ok s"
  shows "timers_ok (snd (render reason d s))"
proof (cases "width s = clientWidth s \<and> height s = clientHeight s")
  case True
  then show ?thesis
    using render_body_timers_ok [OF assms, of reason d] by (simp add: render_no_resize)
next
  case False
  then have r: "width s \<noteq> clientWidth s \<or> height s \<noteq> clientHeight s" by blast
  have "timers_ok (s\<lparr>width := clientWidth s, height := clientHeight s\<rparr>)"
    using assms by (simp add: timers_ok_def)
  from render_body_timers_ok [OF this, of DIRTY default_delta] render_resize [OF r, of reason d]
  show ?thesis by simp
qed

lemma fire_timers_ok:
  assumes "timers_ok s"
  shows "timers_ok (snd (fire h s))"
proof (cases "map_of (timers s) h")
  case None
  with assms show ?thesis by (simp add: fire_def)
next
  case (Some reason)
  have "timers_ok (s\<lparr>timers := filter (\<lambda>(h', r). h' \<noteq> h) (timers s)\<rparr>)"
    using assms by (auto simp: timers_ok_def list_all_iff)
  from render_timers_ok [OF this, of reason default_delta] Some
  show ?thesis by (simp add: fire_def)
qed




end
